theory Spec2Isabelle
  imports Main
begin

section \<open>Data model (core/models.py)\<close>

text \<open>
  Timestamps are whole seconds since the Unix epoch, which is the resolution at which a
  token carries them. Primary keys and the token version are Python integers.
\<close>

type_synonym timestamp = int

record user =
  user_id :: int
  email :: string
  password_hash :: string
  first_name :: string
  last_name :: string
  patronymic :: "string option"
  is_active :: bool
  token_version :: int
  created_at :: timestamp
  updated_at :: timestamp
  deleted_at :: "timestamp option"

record role =
  role_id :: int
  role_name :: string

text \<open>A \<open>UserRole\<close> row: the two foreign keys.\<close>

record user_role =
  ur_user :: int
  ur_role :: int

record business_element =
  element_id :: int
  element_name :: string

text \<open>An \<open>AccessRule\<close> row: the two foreign keys and the seven permission flags.\<close>

record access_rule =
  rule_role :: int
  rule_element :: int
  read_permission :: bool
  read_all_permission :: bool
  create_permission :: bool
  update_permission :: bool
  update_all_permission :: bool
  delete_permission :: bool
  delete_all_permission :: bool

text \<open>
  The store: one list of rows per table, in the order in which the database returns
  them, and the sequence that hands out the primary keys of \<open>users\<close>.
\<close>

record db =
  users :: "user list"
  roles :: "role list"
  user_roles :: "user_role list"
  business_elements :: "business_element list"
  access_rules :: "access_rule list"
  users_seq :: int

text \<open>The exceptions that the modelled code can meet.\<close>

datatype error =
  DoesNotExist
  | MultipleObjectsReturned
  | IntegrityError
  | DatabaseError

text \<open>
  \<open>Model.objects.get(...)\<close> on the rows that passed the filter: exactly one row is
  returned, none raises \<open>DoesNotExist\<close>, more than one raises
  \<open>MultipleObjectsReturned\<close>.
\<close>

fun objects_get :: "'a list \<Rightarrow> error + 'a" where
  "objects_get [] = Inl DoesNotExist"
| "objects_get [x] = Inr x"
| "objects_get (x # y # zs) = Inl MultipleObjectsReturned"

text \<open>
  The constraints that models.py declares and the store enforces: primary keys are
  unique and handed out by a sequence that starts at 1, \<open>email\<close> and the element
  name are \<open>unique=True\<close>, \<open>(user, role)\<close> and \<open>(role, element)\<close> are
  \<open>unique_together\<close>.
\<close>

definition store_ok :: "db \<Rightarrow> bool" where
  "store_ok d \<longleftrightarrow>
     distinct (map user_id (users d)) \<and>
     list_all (\<lambda>u. 0 < user_id u \<and> user_id u \<le> users_seq d) (users d) \<and>
     distinct (map email (users d)) \<and>
     distinct (map element_id (business_elements d)) \<and>
     distinct (map element_name (business_elements d)) \<and>
     distinct (map (\<lambda>r. (ur_user r, ur_role r)) (user_roles d)) \<and>
     distinct (map (\<lambda>r. (rule_role r, rule_element r)) (access_rules d))"

section \<open>Permission evaluation (core/services/permissions.py)\<close>

text \<open>
  The queryset \<open>AccessRule.objects.filter(role__userrole__user=user, element=element)\<close>:
  the join of \<open>access_rules\<close> with \<open>user_roles\<close> on the role, restricted to the
  rows of this user and this element. A rule appears once per matching \<open>UserRole\<close> row.
\<close>

definition rules_for :: "db \<Rightarrow> user \<Rightarrow> business_element \<Rightarrow> access_rule list" where
  "rules_for d usr element =
     concat (map (\<lambda>rule.
       map (\<lambda>ur. rule)
         (filter (\<lambda>ur. ur_role ur = rule_role rule \<and> ur_user ur = user_id usr) (user_roles d)))
       (filter (\<lambda>rule. rule_element rule = element_id element) (access_rules d)))"

text \<open>
  The loop \<open>for rule in rules\<close> of \<open>has_access\<close>, with its \<open>return True\<close> exits; falling
  out of the loop is the final \<open>return False\<close>.
\<close>

fun scan_rules :: "user \<Rightarrow> string \<Rightarrow> int option \<Rightarrow> access_rule list \<Rightarrow> bool" where
  "scan_rules usr action owner_id [] = False"
| "scan_rules usr action owner_id (rule # rules) =
     (if action = ''read_all'' \<and> read_all_permission rule then True
      else if action = ''update_all'' \<and> update_all_permission rule then True
      else if action = ''delete_all'' \<and> delete_all_permission rule then True
      else if action = ''create'' \<and> create_permission rule then True
      else
        let is_owner = (owner_id \<noteq> None \<and> owner_id = Some (user_id usr)) in
        if action = ''read'' then
          (if read_all_permission rule then True
           else if read_permission rule \<and> is_owner then True
           else scan_rules usr action owner_id rules)
        else if action = ''update'' then
          (if update_all_permission rule then True
           else if update_permission rule \<and> is_owner then True
           else scan_rules usr action owner_id rules)
        else if action = ''delete'' then
          (if delete_all_permission rule then True
           else if delete_permission rule \<and> is_owner then True
           else scan_rules usr action owner_id rules)
        else scan_rules usr action owner_id rules)"

text \<open>
  \<open>has_access\<close>: only \<open>BusinessElement.DoesNotExist\<close> is caught; any other exception of
  the lookup leaves the function.
\<close>

definition has_access :: "db \<Rightarrow> user \<Rightarrow> string \<Rightarrow> string \<Rightarrow> int option \<Rightarrow> error + bool" where
  "has_access d usr name action owner_id =
     (case objects_get (filter (\<lambda>e. element_name e = name) (business_elements d)) of
        Inl DoesNotExist \<Rightarrow> Inr False
      | Inl e \<Rightarrow> Inl e
      | Inr element \<Rightarrow> Inr (scan_rules usr action owner_id (rules_for d usr element)))"

section \<open>Tokens (core/services/token.py)\<close>

text \<open>
  The claim set of a token. \<open>payload.get\<close> yields \<open>None\<close> for a key that is not there,
  so the two entries that \<open>verify_token\<close> reads are optional.
\<close>

record payload =
  p_user_id :: "int option"
  p_token_version :: "int option"
  p_exp :: timestamp
  p_iat :: timestamp

text \<open>
  The token codec is the JWT library, which is not part of the repository. It is
  modelled symbolically from the specification's description of it: a token is a claim
  set under the signing key, or a string that is no token at all; decoding denies on a
  structural failure, on a signature made with another key and on an expiry time that has
  been reached, and otherwise returns the claims as they were encoded.
\<close>

datatype token = Signed payload string | Malformed string

definition jwt_encode :: "payload \<Rightarrow> string \<Rightarrow> token" where
  "jwt_encode p key = Signed p key"


text \<open>
  \<open>generate_token\<close>: \<open>secret\<close> is \<open>settings.JWT_SECRET_KEY\<close>; \<open>now1\<close> and
  \<open>now2\<close> are the two readings of the clock, in the order of the source.
\<close>

definition generate_token :: "string \<Rightarrow> timestamp \<Rightarrow> timestamp \<Rightarrow> user \<Rightarrow> token" where
  "generate_token secret now1 now2 usr =
     jwt_encode
       \<lparr>p_user_id = Some (user_id usr),
        p_token_version = Some (token_version usr),
        p_exp = now1 + 24 * 3600,
        p_iat = now2\<rparr>
       secret"


section \<open>Accounts (core/services/auth.py)\<close>



text \<open>
  The keyword arguments of \<open>register_user\<close>: the password and the profile columns of
  \<open>User\<close>.
\<close>

record registration =
  reg_email :: string
  reg_first_name :: string
  reg_last_name :: string
  reg_patronymic :: "string option"
  reg_password :: string

text \<open>
  \<open>register_user\<close>. \<open>hash_password\<close> is bcrypt with the salt it has drawn, a parameter
  here. The instance has no primary key, so \<open>save()\<close> is an INSERT: the sequence hands
  out the key, whether or not the row is accepted, and the store raises
  \<open>IntegrityError\<close> on an email that is already there. The result is the exception or
  the saved instance, next to the store as the call leaves it.
\<close>

definition register_user ::
  "(string \<Rightarrow> string) \<Rightarrow> timestamp \<Rightarrow> db \<Rightarrow> registration \<Rightarrow> (error + user) \<times> db" where
  "register_user hash_password now d data =
     (let password = reg_password data;
          new_id = users_seq d + 1;
          usr = \<lparr>user_id = new_id,
                 email = reg_email data,
                 password_hash = hash_password password,
                 first_name = reg_first_name data,
                 last_name = reg_last_name data,
                 patronymic = reg_patronymic data,
                 is_active = True,
                 token_version = 0,
                 created_at = now,
                 updated_at = now,
                 deleted_at = None\<rparr>;
          d' = d\<lparr>users_seq := new_id\<rparr>
      in if \<exists>u \<in> set (users d). email u = email usr
         then (Inl IntegrityError, d')
         else (Inr usr, d'\<lparr>users := users d @ [usr]\<rparr>))"

text \<open>
  \<open>login_user\<close>. \<open>check_password\<close> is bcrypt's verification, a parameter here. Only
  \<open>User.DoesNotExist\<close> is caught.
\<close>

definition login_user ::
  "(string \<Rightarrow> string \<Rightarrow> bool) \<Rightarrow> string \<Rightarrow> timestamp \<Rightarrow> timestamp \<Rightarrow> db \<Rightarrow> string \<Rightarrow> string
     \<Rightarrow> error + token option" where
  "login_user check_password secret now1 now2 d mail password =
     (case objects_get (filter (\<lambda>u. email u = mail \<and> is_active u) (users d)) of
        Inl DoesNotExist \<Rightarrow> Inr None
      | Inl e \<Rightarrow> Inl e
      | Inr usr \<Rightarrow>
          if \<not> check_password password (password_hash usr) then Inr None
          else Inr (Some (generate_token secret now1 now2 usr)))"



section \<open>The registration and login views (api/auth_views.py)\<close>

text \<open>The values that the responses of these views carry.\<close>

datatype json = JInt int | JStr string | JToken token

text \<open>A \<open>JsonResponse\<close>: the object it carries and the status (200 when none is given).\<close>

datatype response = JsonResponse "(string \<times> json) list" nat

text \<open>
  \<open>RegisterView.post\<close> on the decoded body: it has no handler, so an exception of
  \<open>register_user\<close> leaves the view.
\<close>

definition RegisterView_post ::
  "(string \<Rightarrow> string) \<Rightarrow> timestamp \<Rightarrow> db \<Rightarrow> registration \<Rightarrow> (error + response) \<times> db" where
  "RegisterView_post hash_password now d data =
     (case register_user hash_password now d data of
        (Inl e, d') \<Rightarrow> (Inl e, d')
      | (Inr usr, d') \<Rightarrow> (Inr (JsonResponse [(''id'', JInt (user_id usr))] 200), d'))"

text \<open>\<open>LoginView.post\<close> on the decoded body: a denied login is answered with status 401.\<close>

definition LoginView_post ::
  "(string \<Rightarrow> string \<Rightarrow> bool) \<Rightarrow> string \<Rightarrow> timestamp \<Rightarrow> timestamp \<Rightarrow> db \<Rightarrow> string \<Rightarrow> string
     \<Rightarrow> error + response" where
  "LoginView_post check_password secret now1 now2 d mail password =
     (case login_user check_password secret now1 now2 d mail password of
        Inl e \<Rightarrow> Inl e
      | Inr None \<Rightarrow> Inr (JsonResponse [(''error'', JStr ''invalid credentials'')] 401)
      | Inr (Some tok) \<Rightarrow> Inr (JsonResponse [(''token'', JToken tok)] 200))"

section \<open>The seeded store (core/management/commands/seed_data.py)\<close>

text \<open>
  The store as the seed command leaves an empty database: four business elements, four
  roles, five users with one role each, and eight access rules. Names are transliterated
  and the password hashes are placeholders.
\<close>

definition seed_admin :: user where
  "seed_admin =
     \<lparr>user_id = 1, email = ''admin@example.com'', password_hash = ''bcrypt(admin123)'',
        first_name = ''Ivan'', last_name = ''Petrov'', patronymic = Some ''Sergeevich'',
        is_active = True, token_version = 0,
        created_at = 1700000000, updated_at = 1700000000, deleted_at = None\<rparr>"

definition seed_manager :: user where
  "seed_manager =
     \<lparr>user_id = 2, email = ''manager@example.com'', password_hash = ''bcrypt(manager123)'',
        first_name = ''Anna'', last_name = ''Sidorova'', patronymic = Some ''Ivanovna'',
        is_active = True, token_version = 0,
        created_at = 1700000000, updated_at = 1700000000, deleted_at = None\<rparr>"

definition seed_user1 :: user where
  "seed_user1 =
     \<lparr>user_id = 3, email = ''user1@example.com'', password_hash = ''bcrypt(user123)'',
        first_name = ''Dmitry'', last_name = ''Kuznetsov'', patronymic = Some ''Aleksandrovich'',
        is_active = True, token_version = 0,
        created_at = 1700000000, updated_at = 1700000000, deleted_at = None\<rparr>"

definition seed_user2 :: user where
  "seed_user2 =
     \<lparr>user_id = 4, email = ''user2@example.com'', password_hash = ''bcrypt(user123)'',
        first_name = ''Olga'', last_name = ''Smirnova'', patronymic = Some ''Viktorovna'',
        is_active = True, token_version = 0,
        created_at = 1700000000, updated_at = 1700000000, deleted_at = None\<rparr>"

definition seed_guest :: user where
  "seed_guest =
     \<lparr>user_id = 5, email = ''guest@example.com'', password_hash = ''bcrypt(guest123)'',
        first_name = ''Sergey'', last_name = ''Vasilyev'', patronymic = Some ''Petrovich'',
        is_active = True, token_version = 0,
        created_at = 1700000000, updated_at = 1700000000, deleted_at = None\<rparr>"

definition seed_db :: db where
  "seed_db =
     \<lparr>users = [seed_admin, seed_manager, seed_user1, seed_user2, seed_guest],
      roles =
        [\<lparr>role_id = 1, role_name = ''admin''\<rparr>, \<lparr>role_id = 2, role_name = ''manager''\<rparr>,
         \<lparr>role_id = 3, role_name = ''user''\<rparr>, \<lparr>role_id = 4, role_name = ''guest''\<rparr>],
      user_roles =
        [\<lparr>ur_user = 1, ur_role = 1\<rparr>, \<lparr>ur_user = 2, ur_role = 2\<rparr>, \<lparr>ur_user = 3, ur_role = 3\<rparr>,
         \<lparr>ur_user = 4, ur_role = 3\<rparr>, \<lparr>ur_user = 5, ur_role = 4\<rparr>],
      business_elements =
        [\<lparr>element_id = 1, element_name = ''products''\<rparr>,
         \<lparr>element_id = 2, element_name = ''users''\<rparr>,
         \<lparr>element_id = 3, element_name = ''roles''\<rparr>,
         \<lparr>element_id = 4, element_name = ''access_rules''\<rparr>],
      access_rules =
       [
        \<lparr>rule_role = 1, rule_element = 1, read_permission = False,
         read_all_permission = True, create_permission = True, update_permission = False,
         update_all_permission = True, delete_permission = False, delete_all_permission =
         True\<rparr>,
        \<lparr>rule_role = 1, rule_element = 2, read_permission = False,
         read_all_permission = True, create_permission = True, update_permission = False,
         update_all_permission = True, delete_permission = False, delete_all_permission =
         True\<rparr>,
        \<lparr>rule_role = 1, rule_element = 3, read_permission = False,
         read_all_permission = True, create_permission = True, update_permission = False,
         update_all_permission = True, delete_permission = False, delete_all_permission =
         True\<rparr>,
        \<lparr>rule_role = 1, rule_element = 4, read_permission = False,
         read_all_permission = True, create_permission = True, update_permission = False,
         update_all_permission = True, delete_permission = False, delete_all_permission =
         True\<rparr>,
        \<lparr>rule_role = 2, rule_element = 1, read_permission = False,
         read_all_permission = True, create_permission = True, update_permission = True,
         update_all_permission = False, delete_permission = True, delete_all_permission =
         False\<rparr>,
        \<lparr>rule_role = 2, rule_element = 2, read_permission = True, read_all_permission
         = True, create_permission = False, update_permission = False, update_all_permission
         = False, delete_permission = False, delete_all_permission = False\<rparr>,
        \<lparr>rule_role = 3, rule_element = 1, read_permission = True, read_all_permission
         = False, create_permission = True, update_permission = True, update_all_permission
         = False, delete_permission = True, delete_all_permission = False\<rparr>,
        \<lparr>rule_role = 4, rule_element = 1, read_permission = True, read_all_permission
         = False, create_permission = False, update_permission = False,
         update_all_permission = False, delete_permission = False, delete_all_permission =
         False\<rparr>],
      users_seq = 5\<rparr>"

section \<open>What one rule grants\<close>

text \<open>What one rule grants, read off the body of the loop.\<close>

definition rule_grants :: "user \<Rightarrow> string \<Rightarrow> int option \<Rightarrow> access_rule \<Rightarrow> bool" where
  "rule_grants usr action owner_id rule \<longleftrightarrow>
     action = ''read_all'' \<and> read_all_permission rule \<or>
     action = ''update_all'' \<and> update_all_permission rule \<or>
     action = ''delete_all'' \<and> delete_all_permission rule \<or>
     action = ''create'' \<and> create_permission rule \<or>
     action = ''read'' \<and> (read_all_permission rule \<or> read_permission rule \<and> owner_id = Some (user_id usr)) \<or>
     action = ''update'' \<and> (update_all_permission rule \<or> update_permission rule \<and> owner_id = Some (user_id usr)) \<or>
     action = ''delete'' \<and> (delete_all_permission rule \<or> delete_permission rule \<and> owner_id = Some (user_id usr))"

section \<open>Properties of the permission evaluation\<close>

lemma scan_rules_iff:
  "scan_rules usr action owner_id rules \<longleftrightarrow> (\<exists>rule \<in> set rules. rule_grants usr action owner_id rule)"
proof (induction rules)
  case Nil
  show ?case by simp
next
  case (Cons rule rules)
  consider (ra) "action = ''read_all''" | (ua) "action = ''update_all''" | (da) "action = ''delete_all''"
    | (c) "action = ''create''" | (r) "action = ''read''" | (u) "action = ''update''" | (d) "action = ''delete''"
    | (other) "action \<noteq> ''read_all''" "action \<noteq> ''update_all''" "action \<noteq> ''delete_all''"
       "action \<noteq> ''create''" "action \<noteq> ''read''" "action \<noteq> ''update''" "action \<noteq> ''delete''"
    by blast
  then show ?case
  proof cases
    case ra then show ?thesis using Cons.IH by (simp add: rule_grants_def)
  next
    case ua then show ?thesis using Cons.IH by (simp add: rule_grants_def)
  next
    case da then show ?thesis using Cons.IH by (simp add: rule_grants_def)
  next
    case c then show ?thesis using Cons.IH by (simp add: rule_grants_def)
  next
    case r then show ?thesis using Cons.IH by (simp add: rule_grants_def) blast
  next
    case u then show ?thesis using Cons.IH by (simp add: rule_grants_def) blast
  next
    case d then show ?thesis using Cons.IH by (simp add: rule_grants_def) blast
  next
    case other then show ?thesis using Cons.IH by (simp add: rule_grants_def)
  qed
qed

lemma filter_distinct_key:
  "distinct (map f xs) \<Longrightarrow> x \<in> set xs \<Longrightarrow> filter (\<lambda>y. f y = f x) xs = [x]"
proof (induction xs)
  case Nil
  then show ?case by simp
next
  case (Cons a xs)
  show ?case
  proof (cases "a = x")
    case True
    with Cons.prems have "\<forall>y \<in> set xs. f y \<noteq> f x" by (auto simp: image_iff)
    then have "filter (\<lambda>y. f y = f x) xs = []" by (simp add: filter_empty_conv)
    with True show ?thesis by simp
  next
    case False
    with Cons.prems have "x \<in> set xs" "f a \<noteq> f x" by (auto simp: image_iff)
    with Cons show ?thesis by simp
  qed
qed

lemma filter_absent_key:
  "\<forall>y \<in> set xs. f y \<noteq> k \<Longrightarrow> filter (\<lambda>y. f y = k) xs = []"
  by (simp add: filter_empty_conv)

lemma set_rules_for:
  "set (rules_for d usr element) =
     {rule \<in> set (access_rules d). rule_element rule = element_id element \<and>
        (\<exists>ur \<in> set (user_roles d). ur_role ur = rule_role rule \<and> ur_user ur = user_id usr)}"
  by (auto simp: rules_for_def)

lemma has_access_found:
  assumes "distinct (map element_name (business_elements d))"
    and "element \<in> set (business_elements d)"
  shows "has_access d usr (element_name element) action owner_id =
     Inr (\<exists>rule \<in> set (rules_for d usr element). rule_grants usr action owner_id rule)"
  using filter_distinct_key [OF assms]
  by (simp add: has_access_def scan_rules_iff)

lemma has_access_absent:
  assumes "\<forall>e \<in> set (business_elements d). element_name e \<noteq> name"
  shows "has_access d usr name action owner_id = Inr False"
  using filter_absent_key [OF assms]
  by (simp add: has_access_def)

lemma has_access_cases:
  assumes "distinct (map element_name (business_elements d))"
  obtains (absent) "\<forall>e \<in> set (business_elements d). element_name e \<noteq> name"
      "has_access d usr name action owner_id = Inr False"
    | (found) element where "element \<in> set (business_elements d)" "element_name element = name"
      "has_access d usr name action owner_id =
         Inr (\<exists>rule \<in> set (rules_for d usr element). rule_grants usr action owner_id rule)"
proof (cases "\<exists>e \<in> set (business_elements d). element_name e = name")
  case True
  then obtain element where e: "element \<in> set (business_elements d)" "element_name element = name"
    by blast
  from has_access_found [OF assms e(1)] e show ?thesis
    by (intro found [of element]) auto
next
  case False
  then have "\<forall>e \<in> set (business_elements d). element_name e \<noteq> name" by blast
  then show ?thesis using has_access_absent absent by blast
qed

lemma store_ok_seed_db: "store_ok seed_db"
  by (simp add: store_ok_def seed_db_def seed_admin_def seed_manager_def seed_user1_def
      seed_user2_def seed_guest_def)

lemmas seed_defs = seed_db_def seed_admin_def seed_manager_def seed_user1_def
      seed_user2_def seed_guest_def

text \<open>
  C2. A user who holds a role whose rule on the element has the \<open>_all\<close> flag of an
  action is granted the unsuffixed action (\<open>read\<close>, \<open>update\<close>, \<open>delete\<close>) whatever
  the owner id is, absent or different from the user's own id included.
\<close>

theorem all_grant_subsumes_owner_scope:
  assumes "store_ok d"
    and "element \<in> set (business_elements d)"
    and "rule \<in> set (rules_for d usr element)"
  shows "(read_all_permission rule \<longrightarrow>
            has_access d usr (element_name element) ''read'' owner_id = Inr True) \<and>
         (update_all_permission rule \<longrightarrow>
            has_access d usr (element_name element) ''update'' owner_id = Inr True) \<and>
         (delete_all_permission rule \<longrightarrow>
            has_access d usr (element_name element) ''delete'' owner_id = Inr True)"
proof -
  from assms(1) have dn: "distinct (map element_name (business_elements d))"
    by (simp add: store_ok_def)
  note found = has_access_found [OF dn assms(2), of usr _ owner_id]
  have r: "read_all_permission rule \<Longrightarrow> rule_grants usr ''read'' owner_id rule"
    by (simp add: rule_grants_def)
  have u: "update_all_permission rule \<Longrightarrow> rule_grants usr ''update'' owner_id rule"
    by (simp add: rule_grants_def)
  have dl: "delete_all_permission rule \<Longrightarrow> rule_grants usr ''delete'' owner_id rule"
    by (simp add: rule_grants_def)
  from r u dl assms(3) show ?thesis
    unfolding found by blast
qed

theorem all_grant_subsumes_owner_scope_witness:
  "has_access seed_db seed_manager ''products'' ''read'' None = Inr True \<and>
   has_access seed_db seed_manager ''products'' ''read'' (Some 999) = Inr True \<and>
   has_access seed_db seed_admin ''users'' ''update'' (Some 2) = Inr True \<and>
   has_access seed_db seed_admin ''roles'' ''delete'' None = Inr True"
proof -
  let ?products = "\<lparr>element_id = 1, element_name = ''products''\<rparr>"
  let ?users = "\<lparr>element_id = 2, element_name = ''users''\<rparr>"
  let ?roles = "\<lparr>element_id = 3, element_name = ''roles''\<rparr>"
  let ?mgr = "\<lparr>rule_role = 2, rule_element = 1, read_permission = False,
         read_all_permission = True, create_permission = True, update_permission = True,
         update_all_permission = False, delete_permission = True,
         delete_all_permission = False\<rparr>"
  let ?adm = "\<lambda>e. \<lparr>rule_role = 1, rule_element = e, read_permission = False,
         read_all_permission = True, create_permission = True, update_permission = False,
         update_all_permission = True, delete_permission = False,
         delete_all_permission = True\<rparr>"
  have p: "?products \<in> set (business_elements seed_db)"
    and u: "?users \<in> set (business_elements seed_db)"
    and r: "?roles \<in> set (business_elements seed_db)"
    by (simp_all add: seed_db_def)
  have m1: "?mgr \<in> set (rules_for seed_db seed_manager ?products)"
    by (simp add: rules_for_def seed_defs)
  have a2: "?adm 2 \<in> set (rules_for seed_db seed_admin ?users)"
    by (simp add: rules_for_def seed_defs)
  have a3: "?adm 3 \<in> set (rules_for seed_db seed_admin ?roles)"
    by (simp add: rules_for_def seed_defs)
  show ?thesis
    using all_grant_subsumes_owner_scope [OF store_ok_seed_db p m1, of None]
      all_grant_subsumes_owner_scope [OF store_ok_seed_db p m1, of "Some 999"]
      all_grant_subsumes_owner_scope [OF store_ok_seed_db u a2, of "Some 2"]
      all_grant_subsumes_owner_scope [OF store_ok_seed_db r a3, of None]
    by simp
qed

text \<open>
  C1. A user who holds a role whose rule on the element has the flag of an owner-scoped
  action (\<open>read\<close>, \<open>update\<close>, \<open>delete\<close>), while no rule of a held role on that
  element has the corresponding \<open>_all\<close> flag, is granted the action exactly when the
  owner id is given and equals the user's id; without an owner id the answer is False.
\<close>

theorem owner_scoped_grant_iff_owner:
  assumes "store_ok d"
    and "element \<in> set (business_elements d)"
    and "rule \<in> set (rules_for d usr element)"
  shows "(read_permission rule \<and>
            (\<forall>r \<in> set (rules_for d usr element). \<not> read_all_permission r) \<longrightarrow>
            has_access d usr (element_name element) ''read'' owner_id =
              Inr (owner_id \<noteq> None \<and> owner_id = Some (user_id usr)) \<and>
            has_access d usr (element_name element) ''read'' None = Inr False) \<and>
         (update_permission rule \<and>
            (\<forall>r \<in> set (rules_for d usr element). \<not> update_all_permission r) \<longrightarrow>
            has_access d usr (element_name element) ''update'' owner_id =
              Inr (owner_id \<noteq> None \<and> owner_id = Some (user_id usr)) \<and>
            has_access d usr (element_name element) ''update'' None = Inr False) \<and>
         (delete_permission rule \<and>
            (\<forall>r \<in> set (rules_for d usr element). \<not> delete_all_permission r) \<longrightarrow>
            has_access d usr (element_name element) ''delete'' owner_id =
              Inr (owner_id \<noteq> None \<and> owner_id = Some (user_id usr)) \<and>
            has_access d usr (element_name element) ''delete'' None = Inr False)"
proof -
  from assms(1) have dn: "distinct (map element_name (business_elements d))"
    by (simp add: store_ok_def)
  note found = has_access_found [OF dn assms(2), of usr]
  have r: "rule_grants usr ''read'' ow x \<longleftrightarrow>
      read_all_permission x \<or> read_permission x \<and> ow = Some (user_id usr)" for ow x
    by (simp add: rule_grants_def)
  have u: "rule_grants usr ''update'' ow x \<longleftrightarrow>
      update_all_permission x \<or> update_permission x \<and> ow = Some (user_id usr)" for ow x
    by (simp add: rule_grants_def)
  have dl: "rule_grants usr ''delete'' ow x \<longleftrightarrow>
      delete_all_permission x \<or> delete_permission x \<and> ow = Some (user_id usr)" for ow x
    by (simp add: rule_grants_def)
  show ?thesis
    unfolding found r u dl using assms(3) by auto
qed

theorem owner_scoped_grant_iff_owner_witness:
  "has_access seed_db seed_guest ''products'' ''read'' (Some 5) = Inr True \<and>
   has_access seed_db seed_guest ''products'' ''read'' (Some 999) = Inr False \<and>
   has_access seed_db seed_guest ''products'' ''read'' None = Inr False \<and>
   has_access seed_db seed_user1 ''products'' ''update'' (Some 3) = Inr True \<and>
   has_access seed_db seed_user1 ''products'' ''update'' (Some 4) = Inr False \<and>
   has_access seed_db seed_user1 ''products'' ''delete'' (Some 3) = Inr True \<and>
   has_access seed_db seed_user1 ''products'' ''delete'' None = Inr False"
proof -
  let ?products = "\<lparr>element_id = 1, element_name = ''products''\<rparr>"
  let ?guest = "\<lparr>rule_role = 4, rule_element = 1, read_permission = True,
         read_all_permission = False, create_permission = False, update_permission = False,
         update_all_permission = False, delete_permission = False,
         delete_all_permission = False\<rparr>"
  let ?user = "\<lparr>rule_role = 3, rule_element = 1, read_permission = True,
         read_all_permission = False, create_permission = True, update_permission = True,
         update_all_permission = False, delete_permission = True,
         delete_all_permission = False\<rparr>"
  have p: "?products \<in> set (business_elements seed_db)"
    by (simp add: seed_db_def)
  have g: "rules_for seed_db seed_guest ?products = [?guest]"
    by (simp add: rules_for_def seed_defs)
  have u: "rules_for seed_db seed_user1 ?products = [?user]"
    by (simp add: rules_for_def seed_defs)
  have gm: "?guest \<in> set (rules_for seed_db seed_guest ?products)"
    and um: "?user \<in> set (rules_for seed_db seed_user1 ?products)"
    by (simp_all add: g u)
  have ids: "user_id seed_guest = 5" "user_id seed_user1 = 3"
    by (simp_all add: seed_defs)
  show ?thesis
    using owner_scoped_grant_iff_owner [OF store_ok_seed_db p gm, of "Some 5"]
      owner_scoped_grant_iff_owner [OF store_ok_seed_db p gm, of "Some 999"]
      owner_scoped_grant_iff_owner [OF store_ok_seed_db p um, of "Some 3"]
      owner_scoped_grant_iff_owner [OF store_ok_seed_db p um, of "Some 4"]
    by (simp add: g u ids)
qed

text \<open>
  C6. \<open>has_access\<close> always returns a boolean and raises nothing: an element name that
  no business element has gives False for every action, and so does an element for which
  the user's roles have no rule.
\<close>

theorem has_access_total:
  assumes "store_ok d"
  shows "(\<exists>b. has_access d usr name action owner_id = Inr b) \<and>
         ((\<forall>e \<in> set (business_elements d). element_name e \<noteq> name) \<longrightarrow>
            has_access d usr name action owner_id = Inr False) \<and>
         (\<forall>element \<in> set (business_elements d).
            element_name element = name \<and> rules_for d usr element = [] \<longrightarrow>
            has_access d usr name action owner_id = Inr False)"
proof -
  from assms have dn: "distinct (map element_name (business_elements d))"
    by (simp add: store_ok_def)
  have total: "\<exists>b. has_access d usr name action owner_id = Inr b"
    by (rule has_access_cases [OF dn, of name usr action owner_id]) blast+
  have none: "has_access d usr name action owner_id = Inr False"
    if "element \<in> set (business_elements d)" "element_name element = name"
      "rules_for d usr element = []" for element
    using has_access_found [OF dn that(1), of usr action owner_id] that(2,3) by simp
  from total none has_access_absent [of d name usr action owner_id] show ?thesis
    by blast
qed

theorem has_access_total_witness:
  "has_access seed_db seed_guest ''orders'' ''read'' (Some 5) = Inr False \<and>
   has_access seed_db seed_guest ''users'' ''read_all'' None = Inr False \<and>
   (\<exists>b. has_access seed_db seed_guest ''products'' ''read'' (Some 5) = Inr b)"
proof -
  let ?users = "\<lparr>element_id = 2, element_name = ''users''\<rparr>"
  have absent: "\<forall>e \<in> set (business_elements seed_db). element_name e \<noteq> ''orders''"
    by (simp add: seed_db_def)
  have u: "?users \<in> set (business_elements seed_db)"
    by (simp add: seed_db_def)
  have norule: "rules_for seed_db seed_guest ?users = []"
    by (simp add: rules_for_def seed_defs)
  from has_access_total [OF store_ok_seed_db, of seed_guest "''orders''" "''read''" "Some 5"] absent
  have 1: "has_access seed_db seed_guest ''orders'' ''read'' (Some 5) = Inr False"
    by blast
  from has_access_total [OF store_ok_seed_db, of seed_guest "''users''" "''read_all''" None] u norule
  have 2: "has_access seed_db seed_guest ''users'' ''read_all'' None = Inr False"
    by (metis business_element.select_convs(2))
  from has_access_total [OF store_ok_seed_db, of seed_guest "''products''" "''read''" "Some 5"]
  have 3: "\<exists>b. has_access seed_db seed_guest ''products'' ''read'' (Some 5) = Inr b"
    by blast
  from 1 2 3 show ?thesis by blast
qed

lemma rules_for_mono:
  assumes "set (user_roles d) \<subseteq> set urs"
  shows "set (rules_for d usr element) \<subseteq> set (rules_for (d\<lparr>user_roles := urs\<rparr>) usr element)"
  using assms by (auto simp: set_rules_for)

lemma has_access_True_iff:
  "has_access d usr name action owner_id = Inr True \<longleftrightarrow>
     (\<exists>element. objects_get (filter (\<lambda>e. element_name e = name) (business_elements d)) = Inr element \<and>
        (\<exists>rule \<in> set (rules_for d usr element). rule_grants usr action owner_id rule))"
proof (cases "objects_get (filter (\<lambda>e. element_name e = name) (business_elements d))")
  case (Inl e)
  then show ?thesis
    by (cases e) (simp_all add: has_access_def)
next
  case (Inr element)
  then show ?thesis
    by (simp add: has_access_def scan_rules_iff)
qed

text \<open>
  C7. The answer is monotonic in the roles of the user: a grant stays a grant when
  \<open>UserRole\<close> rows are added, whatever rows were there. A user who has no
  \<open>UserRole\<close> row is denied every action on every element.
\<close>

theorem has_access_monotonic_in_roles:
  "(has_access d usr name action owner_id = Inr True \<and> set (user_roles d) \<subseteq> set urs \<longrightarrow>
      has_access (d\<lparr>user_roles := urs\<rparr>) usr name action owner_id = Inr True) \<and>
   (store_ok d \<and> (\<forall>ur \<in> set (user_roles d). ur_user ur \<noteq> user_id usr) \<longrightarrow>
      has_access d usr name action owner_id = Inr False)"
proof (intro conjI impI)
  assume a: "has_access d usr name action owner_id = Inr True \<and> set (user_roles d) \<subseteq> set urs"
  then obtain element rule where
    e: "objects_get (filter (\<lambda>e. element_name e = name) (business_elements d)) = Inr element"
    and r: "rule \<in> set (rules_for d usr element)" "rule_grants usr action owner_id rule"
    unfolding has_access_True_iff by blast
  from a r(1) rules_for_mono have "rule \<in> set (rules_for (d\<lparr>user_roles := urs\<rparr>) usr element)"
    by blast
  with e r(2) show "has_access (d\<lparr>user_roles := urs\<rparr>) usr name action owner_id = Inr True"
    unfolding has_access_True_iff by auto
next
  assume a: "store_ok d \<and> (\<forall>ur \<in> set (user_roles d). ur_user ur \<noteq> user_id usr)"
  then have dn: "distinct (map element_name (business_elements d))"
    by (simp add: store_ok_def)
  from a have empty: "set (rules_for d usr element) = {}" for element
    unfolding set_rules_for by blast
  show "has_access d usr name action owner_id = Inr False"
    by (rule has_access_cases [OF dn, of name usr action owner_id]) (simp_all add: empty)
qed

theorem has_access_monotonic_in_roles_witness:
  "has_access seed_db seed_guest ''products'' ''read'' (Some 5) = Inr True \<and>
   has_access (seed_db\<lparr>user_roles := user_roles seed_db @ [\<lparr>ur_user = 5, ur_role = 3\<rparr>]\<rparr>)
     seed_guest ''products'' ''read'' (Some 5) = Inr True \<and>
   has_access (seed_db\<lparr>user_roles := []\<rparr>) seed_guest ''products'' ''read'' (Some 5) = Inr False"
proof -
  let ?urs = "user_roles seed_db @ [\<lparr>ur_user = 5, ur_role = 3\<rparr>]"
  have g: "has_access seed_db seed_guest ''products'' ''read'' (Some 5) = Inr True"
    by (simp add: has_access_def rules_for_def seed_defs)
  have sub: "set (user_roles seed_db) \<subseteq> set ?urs"
    by auto
  have ok: "store_ok (seed_db\<lparr>user_roles := []\<rparr>)"
    using store_ok_seed_db by (simp add: store_ok_def)
  have none: "\<forall>ur \<in> set (user_roles (seed_db\<lparr>user_roles := []\<rparr>)). ur_user ur \<noteq> user_id seed_guest"
    by simp
  from has_access_monotonic_in_roles [of seed_db seed_guest "''products''" "''read''" "Some 5" ?urs] g sub
  have 1: "has_access (seed_db\<lparr>user_roles := ?urs\<rparr>) seed_guest ''products'' ''read'' (Some 5) = Inr True"
    by blast
  from has_access_monotonic_in_roles [of "seed_db\<lparr>user_roles := []\<rparr>" seed_guest "''products''" "''read''" "Some 5"] ok none
  have 2: "has_access (seed_db\<lparr>user_roles := []\<rparr>) seed_guest ''products'' ''read'' (Some 5) = Inr False"
    by blast
  from g 1 2 show ?thesis by blast
qed

text \<open>
  C10. An action that is none of the seven verbs is denied, whatever the flags of the
  rules are.
\<close>

theorem unknown_action_denied:
  assumes "store_ok d"
    and "action \<notin> {''read'', ''read_all'', ''create'', ''update'', ''update_all'', ''delete'',
           ''delete_all''}"
  shows "has_access d usr name action owner_id = Inr False"
proof -
  from assms(1) have dn: "distinct (map element_name (business_elements d))"
    by (simp add: store_ok_def)
  from assms(2) have "\<not> rule_grants usr action owner_id rule" for rule
    by (simp add: rule_grants_def)
  then have no: "\<not> (\<exists>rule \<in> set rules. rule_grants usr action owner_id rule)" for rules
    by blast
  show ?thesis
    by (rule has_access_cases [OF dn, of name usr action owner_id]) (simp_all add: no)
qed

theorem unknown_action_denied_witness:
  "has_access
     (seed_db\<lparr>access_rules :=
        [\<lparr>rule_role = 1, rule_element = 1, read_permission = True, read_all_permission = True,
          create_permission = True, update_permission = True, update_all_permission = True,
          delete_permission = True, delete_all_permission = True\<rparr>]\<rparr>)
     seed_admin ''products'' ''write'' (Some 1) = Inr False \<and>
   has_access seed_db seed_admin ''products'' ''READ'' (Some 1) = Inr False \<and>
   has_access seed_db seed_admin ''products'' [] None = Inr False"
proof -
  let ?d = "seed_db\<lparr>access_rules :=
        [\<lparr>rule_role = 1, rule_element = 1, read_permission = True, read_all_permission = True,
          create_permission = True, update_permission = True, update_all_permission = True,
          delete_permission = True, delete_all_permission = True\<rparr>]\<rparr>"
  have ok: "store_ok ?d"
    using store_ok_seed_db by (simp add: store_ok_def)
  show ?thesis
    using unknown_action_denied [OF ok, of "''write''" seed_admin "''products''" "Some 1"]
      unknown_action_denied [OF store_ok_seed_db, of "''READ''" seed_admin "''products''" "Some 1"]
      unknown_action_denied [OF store_ok_seed_db, of "[]" seed_admin "''products''" None]
    by simp
qed

section \<open>Properties of tokens and accounts\<close>



















section \<open>Properties of registration\<close>

lemma register_user_duplicate:
  assumes "u \<in> set (users d)" and "email u = reg_email data"
  shows "register_user hash_password now d data = (Inl IntegrityError, d\<lparr>users_seq := users_seq d + 1\<rparr>)"
  using assms by (auto simp: register_user_def Let_def)

lemma RegisterView_post_duplicate:
  assumes "u \<in> set (users d)" and "email u = reg_email data"
  shows "RegisterView_post hash_password now d data =
     (Inl IntegrityError, d\<lparr>users_seq := users_seq d + 1\<rparr>)"
  by (simp add: RegisterView_post_def register_user_duplicate [OF assms])

lemma LoginView_post_unknown_email:
  assumes "\<forall>u \<in> set (users d). email u \<noteq> mail"
  shows "LoginView_post check_password secret now1 now2 d mail password =
     Inr (JsonResponse [(''error'', JStr ''invalid credentials'')] 401)"
proof -
  from assms have "filter (\<lambda>u. email u = mail \<and> is_active u) (users d) = []"
    by (simp add: filter_empty_conv)
  then show ?thesis
    by (simp add: LoginView_post_def login_user_def)
qed

text \<open>
  C8. Registration with an email that the store already holds: \<open>register_user\<close> does
  not return a value for it; the store's \<open>IntegrityError\<close> is raised, and
  \<open>RegisterView.post\<close>, which has no handler, lets it through. Here the request repeats
  the email of the seeded administrator.
\<close>

theorem register_duplicate_email_uncaught:
  "RegisterView_post (\<lambda>password. ''bcrypt('' @ password @ '')'') 1700000500 seed_db
     \<lparr>reg_email = ''admin@example.com'', reg_first_name = ''Eve'', reg_last_name = ''Doe'',
      reg_patronymic = None, reg_password = ''pw''\<rparr> =
   (Inl IntegrityError, seed_db\<lparr>users_seq := 6\<rparr>)"
proof -
  have m: "seed_admin \<in> set (users seed_db)" by (simp add: seed_db_def)
  have e: "email seed_admin = reg_email \<lparr>reg_email = ''admin@example.com'', reg_first_name = ''Eve'',
      reg_last_name = ''Doe'', reg_patronymic = None, reg_password = ''pw''\<rparr>"
    by (simp add: seed_admin_def)
  have s: "seed_db\<lparr>users_seq := users_seq seed_db + 1\<rparr> = seed_db\<lparr>users_seq := 6\<rparr>"
    by (simp add: seed_db_def)
  show ?thesis
    by (simp only: RegisterView_post_duplicate [OF m e] s)
qed

end
